theory Spec2Isabelle
  imports Main
begin

section \<open>Values decoded from JSON\<close>

text \<open>
  \<^verbatim>\<open>col_agent.py\<close> is a script: it asks a generation service for search parameters, sends
  one GET request to the Catalogue of Life, normalises the JSON answer into pydantic
  models, asks the generation service for a summary, prints a report and writes a CSV
  file. The values it walks are what \<^verbatim>\<open>response.json()\<close> decodes: \<open>None\<close>, booleans,
  numbers, strings, lists and dicts. A dict is kept as the list of its items (keys
  distinct, as in a decoded dict); a float is kept as its literal, since the script never
  computes with one. Strings are byte strings: the text in UTF-8.
\<close>

datatype json =
    JNull
  | JBool bool
  | JInt int
  | JFloat string
  | JStr string
  | JArr "json list"
  | JObj "(string \<times> json) list"

datatype py_exn =
    AttributeError
  | TypeError
  | KeyError
  | ValidationError
  | APIError
  | RequestException
  | JSONDecodeError

text \<open>
  Library behaviour the script relies on and does not contain. \<open>HttpUrl\<close> is pydantic's
  URL validation: the text of the accepted URL, or \<open>None\<close> when validation raises.
  \<open>lax_int\<close> is pydantic's coercion to \<open>int\<close> of a value that is not a JSON integer
  (a numeric string, an integral float, a boolean). \<open>repr\<close> is Python's \<open>str()\<close> of a
  float, list or dict, and \<open>strip\<close> is \<open>str.strip()\<close>.
\<close>

record library =
  HttpUrl :: "string \<Rightarrow> string option"
  lax_int :: "json \<Rightarrow> int option"
  repr :: "json \<Rightarrow> string"
  strip :: "string \<Rightarrow> string"

subsection \<open>Dict access, iteration, formatting\<close>

text \<open>\<^verbatim>\<open>d.get(k, default)\<close>: only a dict has \<open>get\<close>.\<close>

definition dict_get :: "json \<Rightarrow> string \<Rightarrow> json \<Rightarrow> py_exn + json" where
  "dict_get d k dflt =
     (case d of
        JObj kvs \<Rightarrow> Inr (case map_of kvs k of None \<Rightarrow> dflt | Some v \<Rightarrow> v)
      | _ \<Rightarrow> Inl AttributeError)"

text \<open>\<^verbatim>\<open>d[k]\<close> with a string key: \<open>KeyError\<close> on a dict without the key, \<open>TypeError\<close> on
  anything that is not a dict.\<close>

definition subscript :: "json \<Rightarrow> string \<Rightarrow> py_exn + json" where
  "subscript d k =
     (case d of
        JObj kvs \<Rightarrow> (case map_of kvs k of None \<Rightarrow> Inl KeyError | Some v \<Rightarrow> Inr v)
      | _ \<Rightarrow> Inl TypeError)"

text \<open>\<^verbatim>\<open>for x in v\<close>: a list gives its elements, a dict its keys, a string its characters;
  nothing else is iterable.\<close>

definition iterate :: "json \<Rightarrow> py_exn + json list" where
  "iterate v =
     (case v of
        JArr xs \<Rightarrow> Inr xs
      | JObj kvs \<Rightarrow> Inr (map (\<lambda>kv. JStr (fst kv)) kvs)
      | JStr s \<Rightarrow> Inr (map (\<lambda>c. JStr [c]) s)
      | _ \<Rightarrow> Inl TypeError)"

definition digit :: "nat \<Rightarrow> char" where
  "digit n = ''0123456789'' ! n"

fun digits :: "nat \<Rightarrow> string" where
  "digits n = (if n < 10 then [digit n] else digits (n div 10) @ [digit (n mod 10)])"

declare digits.simps [simp del]

definition str_int :: "int \<Rightarrow> string" where
  "str_int i = (if i < 0 then CHR ''-'' # digits (nat (- i)) else digits (nat i))"

text \<open>What an f-string puts in for a decoded value.\<close>

definition py_str :: "library \<Rightarrow> json \<Rightarrow> string" where
  "py_str L v =
     (case v of
        JNull \<Rightarrow> ''None''
      | JBool b \<Rightarrow> (if b then ''True'' else ''False'')
      | JInt n \<Rightarrow> str_int n
      | JStr s \<Rightarrow> s
      | _ \<Rightarrow> repr L v)"

text \<open>\<^verbatim>\<open>sep.join(xs)\<close>\<close>

fun str_join :: "string \<Rightarrow> string list \<Rightarrow> string" where
  "str_join sep [] = []"
| "str_join sep [x] = x"
| "str_join sep (x # y # ys) = x @ sep @ str_join sep (y # ys)"

section \<open>The pydantic models\<close>

record CoLQueryParams =
  q :: string
  rank :: "string option"
  limit :: "int option"

record NameInfo =
  scientificName :: string
  rank :: string
  link :: "string option"
  acceptedName :: "string option"
  classification :: "string list option"

record ColResponse =
  results :: "NameInfo list"
  query_url :: string
  total' :: int

text \<open>
  Field validation (pydantic 2, which \<^verbatim>\<open>model_dump_json\<close> belongs to): a \<open>str\<close> field takes
  a string and nothing else, an \<open>Optional\<close> field also takes \<open>None\<close>, an \<open>int\<close> field takes an
  integer or whatever the lax coercion accepts, a \<open>List[str]\<close> field takes a list of
  strings. The result is \<open>None\<close> where pydantic raises \<open>ValidationError\<close>.
\<close>

definition validate_str :: "json \<Rightarrow> string option" where
  "validate_str v = (case v of JStr s \<Rightarrow> Some s | _ \<Rightarrow> None)"

definition validate_optional_str :: "json \<Rightarrow> string option option" where
  "validate_optional_str v =
     (case v of JNull \<Rightarrow> Some None | JStr s \<Rightarrow> Some (Some s) | _ \<Rightarrow> None)"

definition validate_int :: "library \<Rightarrow> json \<Rightarrow> int option" where
  "validate_int L v = (case v of JInt n \<Rightarrow> Some n | _ \<Rightarrow> lax_int L v)"

definition validate_optional_int :: "library \<Rightarrow> json \<Rightarrow> int option option" where
  "validate_optional_int L v =
     (case v of JNull \<Rightarrow> Some None | _ \<Rightarrow> map_option Some (validate_int L v))"

text \<open>\<^verbatim>\<open>classification or None\<close> handed to \<open>Optional[List[str]]\<close>: the empty list is
  replaced by \<open>None\<close> before validation.\<close>

definition validate_classification :: "json list \<Rightarrow> string list option option" where
  "validate_classification cs =
     (if cs = [] then Some None else map_option Some (those (map validate_str cs)))"

text \<open>\<^verbatim>\<open>CoLQueryParams\<close>: \<open>q\<close> is required, \<open>rank\<close> defaults to \<open>None\<close>, \<open>limit\<close> to 10.\<close>

definition CoLQueryParams_validate :: "library \<Rightarrow> json \<Rightarrow> py_exn + CoLQueryParams" where
  "CoLQueryParams_validate L g =
     (case g of
        JObj kvs \<Rightarrow>
          (case map_of kvs ''q'' of
             None \<Rightarrow> Inl ValidationError
           | Some qv \<Rightarrow>
               (case (validate_str qv,
                      validate_optional_str
                        (case map_of kvs ''rank'' of None \<Rightarrow> JNull | Some v \<Rightarrow> v),
                      validate_optional_int L
                        (case map_of kvs ''limit'' of None \<Rightarrow> JInt 10 | Some v \<Rightarrow> v)) of
                  (Some s, Some r, Some l) \<Rightarrow>
                    Inr \<lparr>q = s, CoLQueryParams.rank = r, limit = l\<rparr>
                | _ \<Rightarrow> Inl ValidationError))
      | _ \<Rightarrow> Inl ValidationError)"

definition NameInfo_validate ::
  "library \<Rightarrow> json \<Rightarrow> json \<Rightarrow> string \<Rightarrow> json \<Rightarrow> json list \<Rightarrow> py_exn + NameInfo" where
  "NameInfo_validate L sn rk lk an cs =
     (case (validate_str sn, validate_str rk, HttpUrl L lk,
            validate_optional_str an, validate_classification cs) of
        (Some s, Some r, Some u, Some a, Some c) \<Rightarrow>
          Inr \<lparr>scientificName = s, rank = r, link = Some u,
               acceptedName = a, classification = c\<rparr>
      | _ \<Rightarrow> Inl ValidationError)"

definition ColResponse_validate ::
  "library \<Rightarrow> NameInfo list \<Rightarrow> string \<Rightarrow> json \<Rightarrow> py_exn + ColResponse" where
  "ColResponse_validate L rs u t =
     (case validate_int L t of
        None \<Rightarrow> Inl ValidationError
      | Some n \<Rightarrow> Inr \<lparr>results = rs, query_url = u, total' = n\<rparr>)"

section \<open>Query interpretation and the request\<close>

text \<open>
  Lines 50 to 58: the generation service raises or yields an object, which the patched
  client validates against \<open>CoLQueryParams\<close>.
\<close>

definition interpret_query :: "library \<Rightarrow> py_exn + json \<Rightarrow> py_exn + CoLQueryParams" where
  "interpret_query L generated =
     (case generated of Inl e \<Rightarrow> Inl e | Inr g \<Rightarrow> CoLQueryParams_validate L g)"

text \<open>Lines 62 to 66: \<^verbatim>\<open>rank or "species"\<close>, \<^verbatim>\<open>limit or 10\<close>.\<close>

definition params :: "CoLQueryParams \<Rightarrow> (string \<times> json) list" where
  "params query_params =
     [(''q'', JStr (q query_params)),
      (''rank'', JStr (case CoLQueryParams.rank query_params of
                         None \<Rightarrow> ''species''
                       | Some r \<Rightarrow> if r = [] then ''species'' else r)),
      (''limit'', JInt (case limit query_params of
                          None \<Rightarrow> 10
                        | Some n \<Rightarrow> if n = 0 then 10 else n))]"

section \<open>Normalisation\<close>

definition link_template :: string where
  "link_template = ''https://www.catalogueoflife.org/data/taxon/''"

text \<open>Line 88, the f-string.\<close>

definition link_text :: "library \<Rightarrow> json \<Rightarrow> py_exn + string" where
  "link_text L usage =
     (case dict_get usage ''id'' JNull of
        Inl e \<Rightarrow> Inl e
      | Inr ident \<Rightarrow> Inr (link_template @ py_str L ident))"

text \<open>Line 82, the list comprehension over the element's classification.\<close>

fun entry_names :: "json list \<Rightarrow> py_exn + json list" where
  "entry_names [] = Inr []"
| "entry_names (entry # rest) =
     (case dict_get entry ''name'' JNull of
        Inl e \<Rightarrow> Inl e
      | Inr n \<Rightarrow> (case entry_names rest of Inl e \<Rightarrow> Inl e | Inr ns \<Rightarrow> Inr (n # ns)))"

definition classification_of :: "json \<Rightarrow> py_exn + json list" where
  "classification_of item =
     (case dict_get item ''classification'' (JArr []) of
        Inl e \<Rightarrow> Inl e
      | Inr c \<Rightarrow> (case iterate c of Inl e \<Rightarrow> Inl e | Inr entries \<Rightarrow> entry_names entries))"

text \<open>Lines 85 to 91, the body of the \<open>try\<close>: the arguments in order, then the model's
  validation.\<close>

definition build :: "library \<Rightarrow> json \<Rightarrow> json \<Rightarrow> json list \<Rightarrow> py_exn + NameInfo" where
  "build L usage name_info cs =
     (case subscript name_info ''scientificName'' of Inl e \<Rightarrow> Inl e | Inr sn \<Rightarrow>
      (case subscript name_info ''rank'' of Inl e \<Rightarrow> Inl e | Inr rk \<Rightarrow>
      (case link_text L usage of Inl e \<Rightarrow> Inl e | Inr lk \<Rightarrow>
      (case dict_get usage ''accepted'' (JObj []) of Inl e \<Rightarrow> Inl e | Inr acc \<Rightarrow>
      (case dict_get acc ''name'' (JObj []) of Inl e \<Rightarrow> Inl e | Inr accn \<Rightarrow>
      (case dict_get accn ''scientificName'' JNull of Inl e \<Rightarrow> Inl e | Inr an \<Rightarrow>
         NameInfo_validate L sn rk lk an cs))))))"

text \<open>
  One pass of the loop body, lines 80 to 94. An exception of lines 80 to 82 is outside
  the \<open>try\<close> and ends the run; one of lines 85 to 91 is caught and the element skipped.
\<close>

datatype step = Raised py_exn | Skipped py_exn | Emitted NameInfo

definition normalise_item :: "library \<Rightarrow> json \<Rightarrow> step" where
  "normalise_item L item =
     (case dict_get item ''usage'' (JObj []) of Inl e \<Rightarrow> Raised e | Inr usage \<Rightarrow>
      (case dict_get usage ''name'' (JObj []) of Inl e \<Rightarrow> Raised e | Inr name_info \<Rightarrow>
      (case classification_of item of Inl e \<Rightarrow> Raised e | Inr cs \<Rightarrow>
      (case build L usage name_info cs of Inl e \<Rightarrow> Skipped e | Inr r \<Rightarrow> Emitted r))))"

datatype event = Prompt string | Print string | PrintExn string py_exn

definition skip_message :: "py_exn \<Rightarrow> event" where
  "skip_message e = PrintExn ''Skipping invalid result:'' e"

text \<open>The loop of line 79, with the list \<open>results\<close> and the console as its state.\<close>

fun normalise_loop ::
  "library \<Rightarrow> json list \<Rightarrow> NameInfo list \<times> event list
     \<Rightarrow> py_exn option \<times> NameInfo list \<times> event list" where
  "normalise_loop L [] (rs, out) = (None, rs, out)"
| "normalise_loop L (item # items) (rs, out) =
     (case normalise_item L item of
        Raised e \<Rightarrow> (Some e, rs, out)
      | Skipped e \<Rightarrow> normalise_loop L items (rs, out @ [skip_message e])
      | Emitted r \<Rightarrow> normalise_loop L items (rs @ [r], out))"

record response =
  status_code :: int
  url :: string
  json_body :: "py_exn + json"

text \<open>Lines 73 to 96: the exception if one escaped, \<open>results\<close>, \<open>total\<close>, the console.\<close>

definition normalise_response ::
  "library \<Rightarrow> response \<Rightarrow> py_exn option \<times> NameInfo list \<times> json \<times> event list" where
  "normalise_response L resp =
     (if status_code resp = 200 then
        (case json_body resp of Inl e \<Rightarrow> (Some e, [], JInt 0, []) | Inr data \<Rightarrow>
         (case dict_get data ''total'' (JInt 0) of
            Inl e \<Rightarrow> (Some e, [], JInt 0, [])
          | Inr reported \<Rightarrow>
             (case dict_get data ''result'' (JArr []) of
                Inl e \<Rightarrow> (Some e, [], reported, [])
              | Inr result \<Rightarrow>
                 (case iterate result of
                    Inl e \<Rightarrow> (Some e, [], reported, [])
                  | Inr items \<Rightarrow>
                     (case normalise_loop L items ([], []) of
                        (exn, rs, out) \<Rightarrow> (exn, rs, reported, out))))))
      else (None, [], JInt 0, [Print (''API call failed: '' @ str_int (status_code resp))]))"

text \<open>Lines 73 to 103: the structured response and the console, or the exception that
  ended the run with what was printed before it.\<close>

definition build_envelope ::
  "library \<Rightarrow> response \<Rightarrow> (py_exn \<times> event list) + (ColResponse \<times> event list)" where
  "build_envelope L resp =
     (case normalise_response L resp of
        (Some e, rs, reported, out) \<Rightarrow> Inl (e, out)
      | (None, rs, reported, out) \<Rightarrow>
          (case ColResponse_validate L rs (url resp) reported of
             Inl e \<Rightarrow> Inl (e, out)
           | Inr structured_response \<Rightarrow> Inr (structured_response, out)))"

section \<open>Report and export\<close>

definition report_header :: string where
  "report_header = [CHR 0x0A, CHR 0xE2, CHR 0x9C, CHR 0x85] @ '' Structured Catalogue of Life Results''"

definition summary_header :: string where
  "summary_header = [CHR 0x0A, CHR 0xF0, CHR 0x9F, CHR 0xA7, CHR 0xA0] @ '' GPT Summary:''"

definition saved_message :: string where
  "saved_message =
     [CHR 0xF0, CHR 0x9F, CHR 0x93, CHR 0x81] @ '' Results saved to col_results.csv'' @ [CHR 0x0A]"

text \<open>Lines 130 to 132.\<close>

definition entity_line :: "nat \<Rightarrow> NameInfo \<Rightarrow> string" where
  "entity_line i r =
     digits i @ ''. '' @ scientificName r @ '' ('' @ NameInfo.rank r @ '') - ''
       @ (case link r of None \<Rightarrow> ''No link'' | Some u \<Rightarrow> u)
       @ (case acceptedName r of
            None \<Rightarrow> []
          | Some a \<Rightarrow> if a = [] then [] else '' (Accepted name: '' @ a @ '')'')
       @ (case classification r of
            None \<Rightarrow> []
          | Some cs \<Rightarrow> if cs = [] then [] else '' | Classification: '' @ str_join '' > '' cs)"

fun print_results :: "nat \<Rightarrow> NameInfo list \<Rightarrow> event list" where
  "print_results i [] = []"
| "print_results i (r # rs) = Print (entity_line i r) # print_results (Suc i) rs"

definition csv_header :: "string list" where
  "csv_header = [''Scientific Name'', ''Rank'', ''Link'', ''Accepted Name'', ''Classification'']"

text \<open>Lines 146 to 152.\<close>

definition csv_row :: "NameInfo \<Rightarrow> string list" where
  "csv_row r =
     [scientificName r,
      NameInfo.rank r,
      (case link r of None \<Rightarrow> [] | Some u \<Rightarrow> u),
      (case acceptedName r of None \<Rightarrow> [] | Some a \<Rightarrow> a),
      str_join '' > '' (case classification r of None \<Rightarrow> [] | Some cs \<Rightarrow> cs)]"

text \<open>
  What a run leaves behind: the console, the rows of \<^verbatim>\<open>col_results.csv\<close> if it was
  written, the exception that ended the run if one did, and \<open>structured_response\<close> if the
  run got as far as building it.
\<close>

record outcome =
  console :: "event list"
  csv_file :: "string list list option"
  raised :: "py_exn option"
  envelope :: "ColResponse option"

text \<open>Lines 124 to 153, given the content of the summary message (\<open>None\<close> has no
  \<open>strip\<close>).\<close>

definition report :: "library \<Rightarrow> ColResponse \<Rightarrow> string option \<Rightarrow> event list \<Rightarrow> outcome" where
  "report L structured_response content out =
     (let out1 = out @
            [Print report_header,
             Print (''Total matching records: '' @ str_int (total' structured_response)),
             Print (''Query URL: '' @ query_url structured_response),
             Print ''Results:'']
            @ print_results 1 (results structured_response)
            @ [Print summary_header]
      in case content of
           None \<Rightarrow>
             \<lparr>console = out1, csv_file = None, raised = Some AttributeError,
              envelope = Some structured_response\<rparr>
         | Some text \<Rightarrow>
             (let out2 = out1 @ [Print (strip L text), Print [CHR 0x0A]]
              in if total' structured_response > 0 then
                   \<lparr>console = out2 @ [Print saved_message],
                    csv_file = Some (csv_header # map csv_row (results structured_response)),
                    raised = None, envelope = Some structured_response\<rparr>
                 else
                   \<lparr>console = out2, csv_file = None, raised = None,
                    envelope = Some structured_response\<rparr>))"

section \<open>The run\<close>

text \<open>
  The services the script talks to: the line typed at the prompt, the answer of the
  generation service to the structured call and to the summary call (the summary prompt
  is a function of \<open>structured_response\<close>), and the answer of the search API to the
  request parameters. Each call may raise. The console and the file system are taken to
  work.
\<close>

record world =
  user_message :: string
  chat_structured :: "string \<Rightarrow> py_exn + json"
  requests_get :: "(string \<times> json) list \<Rightarrow> py_exn + response"
  chat_summary :: "ColResponse \<Rightarrow> py_exn + string option"

definition input_prompt :: event where
  "input_prompt = Prompt ''Enter your species/taxonomy-related query: ''"

definition abort :: "event list \<Rightarrow> py_exn \<Rightarrow> ColResponse option \<Rightarrow> outcome" where
  "abort out e env = \<lparr>console = out, csv_file = None, raised = Some e, envelope = env\<rparr>"

definition run :: "library \<Rightarrow> world \<Rightarrow> outcome" where
  "run L W =
     (case interpret_query L (chat_structured W (user_message W)) of
        Inl e \<Rightarrow> abort [input_prompt] e None
      | Inr query_params \<Rightarrow>
     (case requests_get W (params query_params) of
        Inl e \<Rightarrow> abort [input_prompt] e None
      | Inr resp \<Rightarrow>
     (case build_envelope L resp of
        Inl (e, out) \<Rightarrow> abort (input_prompt # out) e None
      | Inr (structured_response, out) \<Rightarrow>
     (case chat_summary W structured_response of
        Inl e \<Rightarrow> abort (input_prompt # out) e (Some structured_response)
      | Inr content \<Rightarrow> report L structured_response content (input_prompt # out)))))"

section \<open>A library for running examples\<close>

text \<open>
  The examples below are run with a library that accepts every URL text as it stands,
  coerces nothing to \<open>int\<close> and strips nothing. On the URLs and texts of the examples
  (the detail-page prefix followed by ASCII letters) pydantic and Python answer the same.
\<close>

definition plain_library :: library where
  "plain_library =
     \<lparr>HttpUrl = Some, lax_int = (\<lambda>v. None), repr = (\<lambda>v. ''?''), strip = (\<lambda>s. s)\<rparr>"

section \<open>Vocabulary of the properties\<close>

text \<open>Following a path of keys through nested dicts: \<open>None\<close> as soon as a segment is
  missing or the value on the way is not a dict.\<close>

fun lookup_path :: "json \<Rightarrow> string list \<Rightarrow> json option" where
  "lookup_path v [] = Some v"
| "lookup_path v (k # ks) =
     (case v of
        JObj kvs \<Rightarrow> (case map_of kvs k of None \<Rightarrow> None | Some w \<Rightarrow> lookup_path w ks)
      | _ \<Rightarrow> None)"






text \<open>The lines normalisation prints: the notice of a skipped element and the notice of a
  failed search.\<close>

definition is_diagnostic :: "event \<Rightarrow> bool" where
  "is_diagnostic ev =
     (case ev of
        PrintExn s e \<Rightarrow> s = ''Skipping invalid result:''
      | Print s \<Rightarrow> take 17 s = ''API call failed: ''
      | Prompt s \<Rightarrow> False)"

subsection \<open>Example elements\<close>

definition lion_name :: "(string \<times> json) list" where
  "lion_name = [(''scientificName'', JStr ''Panthera leo''), (''rank'', JStr ''species'')]"

definition lion_usage :: "(string \<times> json) list" where
  "lion_usage = [(''id'', JStr ''ABC''), (''name'', JObj lion_name)]"

definition lion :: "(string \<times> json) list" where
  "lion =
     [(''usage'', JObj lion_usage),
      (''classification'',
         JArr [JObj [(''name'', JStr ''Animalia'')], JObj [(''name'', JStr ''Felidae'')]])]"

definition lion_entity :: NameInfo where
  "lion_entity =
     \<lparr>scientificName = ''Panthera leo'', rank = ''species'',
      link = Some ''https://www.catalogueoflife.org/data/taxon/ABC'',
      acceptedName = None, classification = Some [''Animalia'', ''Felidae'']\<rparr>"

text \<open>The same name with no identifier, no accepted name and no classification.\<close>

definition bare_usage :: "(string \<times> json) list" where
  "bare_usage = [(''name'', JObj lion_name)]"

definition bare :: "(string \<times> json) list" where
  "bare = [(''usage'', JObj bare_usage)]"

definition bare_entity :: NameInfo where
  "bare_entity =
     \<lparr>scientificName = ''Panthera leo'', rank = ''species'',
      link = Some ''https://www.catalogueoflife.org/data/taxon/None'',
      acceptedName = None, classification = None\<rparr>"

text \<open>Two malformed elements, and a payload of five elements reporting a total of 5.\<close>

definition nameless :: "(string \<times> json) list" where
  "nameless = [(''usage'', JObj [(''name'', JObj [])])]"

definition rankless :: "(string \<times> json) list" where
  "rankless =
     [(''usage'', JObj [(''id'', JStr ''X1''),
                        (''name'', JObj [(''scientificName'', JStr ''Felis'')])])]"

definition five_items :: "json list" where
  "five_items = [JObj lion, JObj nameless, JObj bare, JObj rankless, JObj lion]"

definition search_url :: string where
  "search_url =
     ''https://api.checklistbank.org/dataset/3LR/nameusage/search?q=lion&rank=species&limit=10''"

definition five_payload :: "(string \<times> json) list" where
  "five_payload = [(''total'', JInt 5), (''result'', JArr five_items)]"

definition five_response :: response where
  "five_response = \<lparr>status_code = 200, url = search_url, json_body = Inr (JObj five_payload)\<rparr>"

subsection \<open>Example runs\<close>

text \<open>
  The generation service answers the structured call with the keyword \<open>lion\<close>. In
  \<open>summary_down\<close> and \<open>five_summary_down\<close> the summary call raises; in \<open>search_down\<close> the
  search API answers with status 500; in \<open>all_malformed\<close> it reports a total of 2 and sends
  two elements that both fail normalisation.
\<close>

definition lion_params :: CoLQueryParams where
  "lion_params = \<lparr>q = ''lion'', CoLQueryParams.rank = None, limit = Some 10\<rparr>"

definition search_failed :: response where
  "search_failed = \<lparr>status_code = 500, url = search_url, json_body = Inl JSONDecodeError\<rparr>"

definition lion_query :: json where
  "lion_query = JObj [(''q'', JStr ''lion'')]"

definition lion_response :: response where
  "lion_response =
     \<lparr>status_code = 200, url = search_url,
      json_body = Inr (JObj [(''total'', JInt 1), (''result'', JArr [JObj lion])])\<rparr>"

definition summary_down :: world where
  "summary_down =
     \<lparr>user_message = ''lion'',
      chat_structured = (\<lambda>m. Inr lion_query),
      requests_get = (\<lambda>ps. Inr lion_response),
      chat_summary = (\<lambda>sr. Inl APIError)\<rparr>"

definition five_summary_down :: world where
  "five_summary_down =
     \<lparr>user_message = ''lion'',
      chat_structured = (\<lambda>m. Inr lion_query),
      requests_get = (\<lambda>ps. Inr five_response),
      chat_summary = (\<lambda>sr. Inl APIError)\<rparr>"

definition search_down :: world where
  "search_down =
     \<lparr>user_message = ''lion'',
      chat_structured = (\<lambda>m. Inr lion_query),
      requests_get = (\<lambda>ps. Inr search_failed),
      chat_summary = (\<lambda>sr. Inr (Some ''No records were found.''))\<rparr>"



section \<open>Query interpretation\<close>

text \<open>
  Claim C1, as the specification states it: every accepted interpretation has a keyword
  that is neither empty nor whitespace, and an empty keyword from the generation service
  makes the interpretation fail. The model \<open>CoLQueryParams\<close> declares \<open>q\<close> as a required
  \<open>str\<close> with no length constraint, so this does not hold: an empty keyword is accepted
  and handed on unchanged.
\<close>

theorem interpret_query_empty_keyword:
  "interpret_query plain_library (Inr (JObj [(''q'', JStr [])]))
     = Inr \<lparr>q = [], CoLQueryParams.rank = None, limit = Some 10\<rparr>"
  by (simp add: interpret_query_def CoLQueryParams_validate_def validate_str_def
        validate_optional_str_def validate_optional_int_def validate_int_def)

text \<open>
  Claim C1, amended: an accepted interpretation carries as keyword exactly the string the
  generation service gave under \<open>q\<close>, whatever it is; the interpretation fails with a
  validation error when the generated object has no \<open>q\<close> or a \<open>q\<close> that is not a string;
  and nothing but a generated object is ever accepted.
\<close>

theorem interpret_query_keyword:
  "(interpret_query L (Inr (JObj kvs)) = Inr p \<longrightarrow> map_of kvs ''q'' = Some (JStr (q p)))
   \<and> ((\<forall>s. map_of kvs ''q'' \<noteq> Some (JStr s))
        \<longrightarrow> interpret_query L (Inr (JObj kvs)) = Inl ValidationError)
   \<and> (interpret_query L g = Inr p \<longrightarrow> (\<exists>kvs. g = Inr (JObj kvs)))"
  by (auto simp add: interpret_query_def CoLQueryParams_validate_def validate_str_def
        split: option.splits json.splits sum.splits)

theorem interpret_query_keyword_witness:
  "interpret_query plain_library (Inr (JObj [(''q'', JStr ''  '')]))
     = Inr \<lparr>q = ''  '', CoLQueryParams.rank = None, limit = Some 10\<rparr>
   \<and> map_of [(''q'', JStr ''  '')] ''q'' = Some (JStr ''  '')
   \<and> (\<forall>s. map_of [(''limit'', JInt 3)] ''q'' \<noteq> Some (JStr s))
   \<and> interpret_query plain_library (Inr (JObj [(''limit'', JInt 3)])) = Inl ValidationError"
proof -
  have a: "interpret_query plain_library (Inr (JObj [(''q'', JStr ''  '')]))
     = Inr \<lparr>q = ''  '', CoLQueryParams.rank = None, limit = Some 10\<rparr>"
    by (simp add: interpret_query_def CoLQueryParams_validate_def validate_str_def
        validate_optional_str_def validate_optional_int_def validate_int_def)
  have b: "\<forall>s. map_of [(''limit'', JInt 3)] ''q'' \<noteq> Some (JStr s)" by simp
  from interpret_query_keyword [of plain_library "[(''q'', JStr ''  '')]"
      "\<lparr>q = ''  '', CoLQueryParams.rank = None, limit = Some 10\<rparr>"] a
  have c: "map_of [(''q'', JStr ''  '')] ''q'' = Some (JStr ''  '')" by simp
  from interpret_query_keyword [of plain_library "[(''limit'', JInt 3)]"] b
  have d: "interpret_query plain_library (Inr (JObj [(''limit'', JInt 3)])) = Inl ValidationError"
    by blast
  from a b c d show ?thesis by blast
qed

section \<open>The request\<close>

text \<open>
  Claim C9: the defaults of the request are substituted for every falsy value. A rank that
  is the empty string gives the same request as no rank, with \<open>rank = species\<close>, and a
  limit of 0 gives the same request as no limit, with \<open>limit = 10\<close>.
\<close>

theorem params_falsy_defaults:
  "params (p\<lparr>CoLQueryParams.rank := Some []\<rparr>) = params (p\<lparr>CoLQueryParams.rank := None\<rparr>)
   \<and> map_of (params (p\<lparr>CoLQueryParams.rank := Some []\<rparr>)) ''rank'' = Some (JStr ''species'')
   \<and> params (p\<lparr>limit := Some 0\<rparr>) = params (p\<lparr>limit := None\<rparr>)
   \<and> map_of (params (p\<lparr>limit := Some 0\<rparr>)) ''limit'' = Some (JInt 10)"
  by (simp add: params_def)

section \<open>One element\<close>

lemmas item_defs = normalise_item_def build_def dict_get_def subscript_def link_text_def
  classification_of_def iterate_def NameInfo_validate_def validate_str_def
  validate_optional_str_def validate_classification_def

lemmas example_defs = lion_def lion_usage_def lion_name_def lion_entity_def
  bare_def bare_usage_def bare_entity_def plain_library_def link_template_def py_str_def

lemma lion_emitted: "normalise_item plain_library (JObj lion) = Emitted lion_entity"
  by (simp add: item_defs example_defs)

lemma bare_emitted: "normalise_item plain_library (JObj bare) = Emitted bare_entity"
  by (simp add: item_defs example_defs)

lemma emitted_build:
  "normalise_item L item = Emitted e \<Longrightarrow>
   \<exists>kvs us name_info cs. item = JObj kvs
     \<and> (case map_of kvs ''usage'' of None \<Rightarrow> JObj [] | Some u \<Rightarrow> u) = JObj us
     \<and> (case map_of us ''name'' of None \<Rightarrow> JObj [] | Some n \<Rightarrow> n) = name_info
     \<and> classification_of item = Inr cs
     \<and> build L (JObj us) name_info cs = Inr e"
  by (auto simp add: normalise_item_def dict_get_def split: json.splits sum.splits)

lemma build_fields:
  "build L (JObj us) name_info cs = Inr e \<Longrightarrow>
   \<exists>ns acc accn an. name_info = JObj ns
     \<and> map_of ns ''scientificName'' = Some (JStr (scientificName e))
     \<and> map_of ns ''rank'' = Some (JStr (NameInfo.rank e))
     \<and> HttpUrl L (link_template
           @ py_str L (case map_of us ''id'' of None \<Rightarrow> JNull | Some v \<Rightarrow> v)) = link e
     \<and> link e \<noteq> None
     \<and> (case map_of us ''accepted'' of None \<Rightarrow> JObj [] | Some v \<Rightarrow> v) = JObj acc
     \<and> (case map_of acc ''name'' of None \<Rightarrow> JObj [] | Some v \<Rightarrow> v) = JObj accn
     \<and> (case map_of accn ''scientificName'' of None \<Rightarrow> JNull | Some v \<Rightarrow> v) = an
     \<and> validate_optional_str an = Some (acceptedName e)
     \<and> validate_classification cs = Some (classification e)"
  unfolding build_def subscript_def link_text_def dict_get_def NameInfo_validate_def
    validate_str_def
  by (auto split: json.splits sum.splits option.splits)

lemma emitted_usage:
  assumes "normalise_item L item = Emitted e"
  shows "\<exists>kvs us ns cs. item = JObj kvs \<and> map_of kvs ''usage'' = Some (JObj us)
     \<and> map_of us ''name'' = Some (JObj ns)
     \<and> classification_of item = Inr cs
     \<and> build L (JObj us) (JObj ns) cs = Inr e"
proof -
  from emitted_build [OF assms] obtain kvs us name_info cs where
    i: "item = JObj kvs"
    and u: "(case map_of kvs ''usage'' of None \<Rightarrow> JObj [] | Some u \<Rightarrow> u) = JObj us"
    and n: "(case map_of us ''name'' of None \<Rightarrow> JObj [] | Some n \<Rightarrow> n) = name_info"
    and c: "classification_of item = Inr cs"
    and b: "build L (JObj us) name_info cs = Inr e"
    by blast
  from build_fields [OF b] obtain ns where
    ni: "name_info = JObj ns"
    and sn: "map_of ns ''scientificName'' = Some (JStr (scientificName e))"
    by blast
  from n ni sn have un: "map_of us ''name'' = Some (JObj ns)"
    by (auto split: option.splits)
  from u un have ku: "map_of kvs ''usage'' = Some (JObj us)"
    by (auto split: option.splits)
  from i ku un c b ni show ?thesis by blast
qed

lemma validate_classification_nonempty:
  "validate_classification cs = Some c \<Longrightarrow> c \<noteq> Some []"
  by (cases cs) (auto simp add: validate_classification_def split: option.splits if_splits)

text \<open>
  Claim C3 says that an element without identifier gets no link. Evaluated on such an
  element, for any library: the f-string formats the missing identifier as \<open>None\<close>, the
  text \<^verbatim>\<open>https://www.catalogueoflife.org/data/taxon/None\<close> goes to URL validation, and the
  entity is emitted with the validated URL as its link, or skipped when validation
  refuses it. The link is never absent.
\<close>

theorem normalise_item_without_id:
  "normalise_item L
     (JObj [(''usage'', JObj [(''name'',
        JObj [(''scientificName'', JStr ''Panthera leo''), (''rank'', JStr ''species'')])])])
   = (case HttpUrl L ''https://www.catalogueoflife.org/data/taxon/None'' of
        None \<Rightarrow> Skipped ValidationError
      | Some u \<Rightarrow>
          Emitted \<lparr>scientificName = ''Panthera leo'', rank = ''species'', link = Some u,
                   acceptedName = None, classification = None\<rparr>)"
  by (simp add: item_defs py_str_def link_template_def split: option.splits)






text \<open>
  Claim C8, the absence discipline: for an emitted entity, an element with no
  classification list or an empty one gives \<open>classification\<close> absent, \<open>classification\<close> is
  never the empty sequence, and an element where a segment of the path usage, accepted,
  name, scientificName is missing gives \<open>acceptedName\<close> absent.
\<close>

theorem absence_discipline:
  assumes "normalise_item L (JObj kvs) = Emitted e"
  shows "(map_of kvs ''classification'' = None \<or> map_of kvs ''classification'' = Some (JArr [])
            \<longrightarrow> classification e = None)
         \<and> classification e \<noteq> Some []
         \<and> (lookup_path (JObj kvs) [''usage'', ''accepted'', ''name'', ''scientificName''] = None
            \<longrightarrow> acceptedName e = None)"
proof -
  from emitted_usage [OF assms] obtain us ns cs where
    ku: "map_of kvs ''usage'' = Some (JObj us)"
    and c: "classification_of (JObj kvs) = Inr cs"
    and b: "build L (JObj us) (JObj ns) cs = Inr e"
    by auto
  from build_fields [OF b] obtain acc accn an where
    a1: "(case map_of us ''accepted'' of None \<Rightarrow> JObj [] | Some v \<Rightarrow> v) = JObj acc"
    and a2: "(case map_of acc ''name'' of None \<Rightarrow> JObj [] | Some v \<Rightarrow> v) = JObj accn"
    and a3: "(case map_of accn ''scientificName'' of None \<Rightarrow> JNull | Some v \<Rightarrow> v) = an"
    and va: "validate_optional_str an = Some (acceptedName e)"
    and vc: "validate_classification cs = Some (classification e)"
    by blast
  have one: "map_of kvs ''classification'' = None \<or> map_of kvs ''classification'' = Some (JArr [])
            \<longrightarrow> classification e = None"
  proof
    assume "map_of kvs ''classification'' = None \<or> map_of kvs ''classification'' = Some (JArr [])"
    with c have "cs = []"
      by (auto simp add: classification_of_def dict_get_def iterate_def)
    with vc show "classification e = None"
      by (simp add: validate_classification_def)
  qed
  have two: "classification e \<noteq> Some []"
    using vc by (rule validate_classification_nonempty)
  have three: "lookup_path (JObj kvs) [''usage'', ''accepted'', ''name'', ''scientificName''] = None
            \<longrightarrow> acceptedName e = None"
  proof
    assume "lookup_path (JObj kvs) [''usage'', ''accepted'', ''name'', ''scientificName''] = None"
    with ku a1 a2 have "map_of accn ''scientificName'' = None"
      by (auto split: option.splits json.splits)
    with a3 va show "acceptedName e = None"
      by (auto simp add: validate_optional_str_def)
  qed
  from one two three show ?thesis by blast
qed

theorem absence_discipline_witness:
  "normalise_item plain_library (JObj bare) = Emitted bare_entity
   \<and> map_of bare ''classification'' = None
   \<and> lookup_path (JObj bare) [''usage'', ''accepted'', ''name'', ''scientificName''] = None
   \<and> classification bare_entity = None
   \<and> acceptedName bare_entity = None"
proof -
  have c: "map_of bare ''classification'' = None"
    by (simp add: bare_def)
  have p: "lookup_path (JObj bare) [''usage'', ''accepted'', ''name'', ''scientificName''] = None"
    by (simp add: bare_def bare_usage_def)
  from absence_discipline [OF bare_emitted] c p bare_emitted
  show ?thesis by blast
qed

section \<open>The batch\<close>











lemma nameless_skipped: "normalise_item plain_library (JObj nameless) = Skipped KeyError"
  by (simp add: item_defs nameless_def)

lemma rankless_skipped: "normalise_item plain_library (JObj rankless) = Skipped KeyError"
  by (simp add: item_defs rankless_def)





section \<open>The whole run\<close>

lemma lion_query_accepted:
  "interpret_query plain_library (Inr lion_query)
     = Inr \<lparr>q = ''lion'', CoLQueryParams.rank = None, limit = Some 10\<rparr>"
  by (simp add: lion_query_def interpret_query_def CoLQueryParams_validate_def validate_str_def
      validate_optional_str_def validate_optional_int_def validate_int_def)

lemma skip_message_diagnostic: "is_diagnostic (skip_message e)"
  by (simp add: is_diagnostic_def skip_message_def)

lemma normalise_loop_diagnostics:
  "normalise_loop L items (rs, out) = (x, rs', out') \<Longrightarrow> list_all is_diagnostic out
   \<Longrightarrow> list_all is_diagnostic out'"
proof (induction items arbitrary: rs out)
  case Nil
  then show ?case by simp
next
  case (Cons item items)
  show ?case
  proof (cases "normalise_item L item")
    case (Raised e)
    with Cons.prems show ?thesis by simp
  next
    case (Skipped e)
    with Cons.prems have "normalise_loop L items (rs, out @ [skip_message e]) = (x, rs', out')"
      by simp
    moreover from Cons.prems(2) have "list_all is_diagnostic (out @ [skip_message e])"
      by (simp add: skip_message_diagnostic)
    ultimately show ?thesis by (rule Cons.IH)
  next
    case (Emitted r)
    with Cons.prems have "normalise_loop L items (rs @ [r], out) = (x, rs', out')"
      by simp
    then show ?thesis using Cons.prems(2) by (rule Cons.IH)
  qed
qed

lemma normalise_response_diagnostics:
  assumes "normalise_response L resp = (x, rs, t, out)"
  shows "list_all is_diagnostic out"
proof (cases "status_code resp = 200")
  case True
  with assms show ?thesis
    using normalise_loop_diagnostics [of L _ "[]" "[]"]
    by (auto simp add: normalise_response_def split: sum.splits prod.splits)
next
  case False
  with assms show ?thesis
    by (auto simp add: normalise_response_def is_diagnostic_def)
qed

lemma build_envelope_diagnostics:
  "build_envelope L resp = Inr (sr, out) \<Longrightarrow> list_all is_diagnostic out"
  using normalise_response_diagnostics
  by (fastforce simp add: build_envelope_def split: prod.splits option.splits sum.splits)

lemma lion_envelope:
  "build_envelope plain_library lion_response =
     Inr (\<lparr>results = [lion_entity], query_url = search_url, total' = 1\<rparr>, [])"
  by (simp add: build_envelope_def normalise_response_def lion_response_def dict_get_def
      iterate_def lion_emitted ColResponse_validate_def validate_int_def)

lemma five_envelope:
  "build_envelope plain_library five_response =
     Inr (\<lparr>results = [lion_entity, bare_entity, lion_entity], query_url = search_url,
           total' = 5\<rparr>,
          [skip_message KeyError, skip_message KeyError])"
  by (simp add: build_envelope_def normalise_response_def five_response_def five_payload_def
      five_items_def dict_get_def iterate_def lion_emitted bare_emitted nameless_skipped
      rankless_skipped ColResponse_validate_def validate_int_def)


lemma failed_search_envelope:
  "status_code resp \<noteq> 200 \<Longrightarrow>
   build_envelope L resp =
     Inr (\<lparr>results = [], query_url = url resp, total' = 0\<rparr>,
          [Print (''API call failed: '' @ str_int (status_code resp))])"
  by (simp add: build_envelope_def normalise_response_def ColResponse_validate_def
      validate_int_def)


text \<open>
  Claim C4, as the specification states it: when the summary call fails, the run still
  completes and reports the structured results, with a marker in place of the summary.
  The summary call of line 116 stands before every line of the report and is not guarded:
  in a run where the search found one record and the summary call raises, the console holds
  the prompt and nothing else, no file is written and the run ends with the exception.
\<close>

theorem summary_failure_no_report:
  "run plain_library summary_down =
     \<lparr>console = [input_prompt], csv_file = None, raised = Some APIError,
      envelope = Some \<lparr>results = [lion_entity], query_url = search_url, total' = 1\<rparr>\<rparr>"
  by (simp add: run_def summary_down_def lion_query_accepted lion_envelope abort_def)

text \<open>
  Claim C4, amended: when the generation service fails on the summary call, the exception
  ends the run at that call. The structured response has been built; the console holds
  the prompt and the notices printed during normalisation and nothing of the report; no
  export file is written.
\<close>

theorem summary_failure_aborts:
  assumes "interpret_query L (chat_structured W (user_message W)) = Inr p"
    and "requests_get W (params p) = Inr resp"
    and "build_envelope L resp = Inr (sr, out)"
    and "chat_summary W sr = Inl e"
  shows "run L W = \<lparr>console = input_prompt # out, csv_file = None, raised = Some e,
                    envelope = Some sr\<rparr>
         \<and> list_all is_diagnostic out"
  using assms build_envelope_diagnostics [OF assms(3)]
  by (simp add: run_def abort_def)

theorem summary_failure_aborts_witness:
  "interpret_query plain_library (chat_structured five_summary_down (user_message five_summary_down))
     = Inr lion_params
   \<and> requests_get five_summary_down (params lion_params) = Inr five_response
   \<and> build_envelope plain_library five_response =
        Inr (\<lparr>results = [lion_entity, bare_entity, lion_entity], query_url = search_url,
              total' = 5\<rparr>,
             [skip_message KeyError, skip_message KeyError])
   \<and> chat_summary five_summary_down
        \<lparr>results = [lion_entity, bare_entity, lion_entity], query_url = search_url,
         total' = 5\<rparr> = Inl APIError
   \<and> run plain_library five_summary_down =
        \<lparr>console = [input_prompt, skip_message KeyError, skip_message KeyError],
         csv_file = None, raised = Some APIError,
         envelope = Some \<lparr>results = [lion_entity, bare_entity, lion_entity],
                           query_url = search_url, total' = 5\<rparr>\<rparr>"
proof -
  have i: "interpret_query plain_library
             (chat_structured five_summary_down (user_message five_summary_down))
           = Inr lion_params"
    by (simp add: five_summary_down_def lion_query_accepted lion_params_def)
  have g: "requests_get five_summary_down (params lion_params) = Inr five_response"
    by (simp add: five_summary_down_def)
  have c: "chat_summary five_summary_down
        \<lparr>results = [lion_entity, bare_entity, lion_entity], query_url = search_url,
         total' = 5\<rparr> = Inl APIError"
    by (simp add: five_summary_down_def)
  from summary_failure_aborts [OF i g five_envelope c] i g five_envelope c
  show ?thesis by simp
qed

text \<open>
  Claim C6: when the search API answers with a status other than 200, the result set is
  empty with total 0, the first line printed after the prompt is the notice with the status
  code, and no export file is written, whatever the summary call does; and when the
  summary call returns a text the run completes with the whole report.
\<close>

theorem non_success_status:
  assumes "interpret_query L (chat_structured W (user_message W)) = Inr p"
    and "requests_get W (params p) = Inr resp"
    and "status_code resp \<noteq> 200"
  shows "csv_file (run L W) = None
         \<and> envelope (run L W) = Some \<lparr>results = [], query_url = url resp, total' = 0\<rparr>
         \<and> take 2 (console (run L W))
             = [input_prompt, Print (''API call failed: '' @ str_int (status_code resp))]
         \<and> (\<forall>text. chat_summary W \<lparr>results = [], query_url = url resp, total' = 0\<rparr>
                      = Inr (Some text)
              \<longrightarrow> run L W =
                    \<lparr>console =
                       [input_prompt,
                        Print (''API call failed: '' @ str_int (status_code resp)),
                        Print report_header,
                        Print ''Total matching records: 0'',
                        Print (''Query URL: '' @ url resp),
                        Print ''Results:'',
                        Print summary_header,
                        Print (strip L text),
                        Print [CHR 0x0A]],
                     csv_file = None, raised = None,
                     envelope = Some \<lparr>results = [], query_url = url resp, total' = 0\<rparr>\<rparr>)"
proof -
  let ?sr = "\<lparr>results = [], query_url = url resp, total' = 0\<rparr>"
  have z: "str_int 0 = ''0''"
    by (simp add: str_int_def digits.simps digit_def)
  note be = failed_search_envelope [OF assms(3), of L]
  show ?thesis
  proof (cases "chat_summary W ?sr")
    case (Inl e)
    with assms(1,2) be show ?thesis
      by (simp add: run_def abort_def)
  next
    case (Inr content)
    with assms(1,2) be show ?thesis
      by (cases content) (simp_all add: run_def report_def z)
  qed
qed

theorem non_success_status_witness:
  "interpret_query plain_library (chat_structured search_down (user_message search_down))
     = Inr lion_params
   \<and> requests_get search_down (params lion_params) = Inr search_failed
   \<and> status_code search_failed \<noteq> 200
   \<and> chat_summary search_down \<lparr>results = [], query_url = search_url, total' = 0\<rparr>
        = Inr (Some ''No records were found.'')
   \<and> run plain_library search_down =
        \<lparr>console =
           [input_prompt,
            Print ''API call failed: 500'',
            Print report_header,
            Print ''Total matching records: 0'',
            Print (''Query URL: '' @ search_url),
            Print ''Results:'',
            Print summary_header,
            Print ''No records were found.'',
            Print [CHR 0x0A]],
         csv_file = None, raised = None,
         envelope = Some \<lparr>results = [], query_url = search_url, total' = 0\<rparr>\<rparr>"
proof -
  have i: "interpret_query plain_library (chat_structured search_down (user_message search_down))
           = Inr lion_params"
    by (simp add: search_down_def lion_query_accepted lion_params_def)
  have g: "requests_get search_down (params lion_params) = Inr search_failed"
    by (simp add: search_down_def)
  have s: "status_code search_failed \<noteq> 200"
    by (simp add: search_failed_def)
  have u: "url search_failed = search_url"
    by (simp add: search_failed_def)
  have c: "chat_summary search_down \<lparr>results = [], query_url = search_url, total' = 0\<rparr>
        = Inr (Some ''No records were found.'')"
    by (simp add: search_down_def)
  have n: "str_int (status_code search_failed) = ''500''"
    by (simp add: search_failed_def str_int_def digits.simps digit_def)
  have t: "strip plain_library ''No records were found.'' = ''No records were found.''"
    by (simp add: plain_library_def)
  from non_success_status [OF i g s] c
  have "run plain_library search_down =
        \<lparr>console =
           [input_prompt,
            Print (''API call failed: '' @ str_int (status_code search_failed)),
            Print report_header,
            Print ''Total matching records: 0'',
            Print (''Query URL: '' @ url search_failed),
            Print ''Results:'',
            Print summary_header,
            Print (strip plain_library ''No records were found.''),
            Print [CHR 0x0A]],
         csv_file = None, raised = None,
         envelope = Some \<lparr>results = [], query_url = url search_failed, total' = 0\<rparr>\<rparr>"
    by (simp only: u)
  then have "run plain_library search_down =
        \<lparr>console =
           [input_prompt,
            Print ''API call failed: 500'',
            Print report_header,
            Print ''Total matching records: 0'',
            Print (''Query URL: '' @ search_url),
            Print ''Results:'',
            Print summary_header,
            Print ''No records were found.'',
            Print [CHR 0x0A]],
         csv_file = None, raised = None,
         envelope = Some \<lparr>results = [], query_url = search_url, total' = 0\<rparr>\<rparr>"
    by (simp add: n u t)
  with i g s c show ?thesis by blast
qed



end
